theory Spec2Isabelle
  imports Complex_Main
begin

section \<open>Exceptions, tensors and the backend operations the module consumes\<close>

text \<open>
  The development embeds \<^verbatim>\<open>keras/layers/recurrent.py\<close>. A Python exception is a value
  \<open>Raise name\<close> carrying the name of its class, and a function that may raise returns
  \<open>error + 'a\<close> with \<open>Inl\<close> for the exception. Tensors hold real numbers (equality of
  outputs is equality of what the layer computes mathematically, not of its rounding):
  a vector is a list, a \<open>(batch, dim)\<close> tensor a list of rows, a
  \<open>(batch, time, dim)\<close> tensor a list of samples, each a list of time steps. A weight
  kernel of shape \<open>(in, out)\<close> is held as the list of its \<open>out\<close> columns, so that the
  column slice \<^verbatim>\<open>kernel[:, a:b]\<close> is \<open>take (b - a) (drop a kernel)\<close>.
\<close>

datatype error = Raise string

abbreviation ValueError :: error where "ValueError \<equiv> Raise ''ValueError''"
abbreviation AttributeError :: error where "AttributeError \<equiv> Raise ''AttributeError''"
abbreviation NotImplementedError :: error where "NotImplementedError \<equiv> Raise ''NotImplementedError''"
abbreviation TypeError :: error where "TypeError \<equiv> Raise ''TypeError''"
abbreviation NameError :: error where "NameError \<equiv> Raise ''NameError''"
abbreviation IndexError :: error where "IndexError \<equiv> Raise ''IndexError''"

definition bindE :: "error + 'a \<Rightarrow> ('a \<Rightarrow> error + 'b) \<Rightarrow> error + 'b" where
  "bindE m f = (case m of Inl e \<Rightarrow> Inl e | Inr x \<Rightarrow> f x)"

type_synonym vec = "real list"
type_synonym mat = "real list list"
type_synonym tensor3 = "real list list list"
type_synonym kernel = "real list list"

text \<open>A dynamically ranked tensor, for the slots of the module that hold "a scalar or a
  tensor" (a dropout mask entry is \<^verbatim>\<open>K.cast_to_floatx(1.)\<close> or a \<open>(batch, dim)\<close>
  tensor; a context mask is tested with \<^verbatim>\<open>K.ndim(mask) > 1\<close>).\<close>

datatype tensor = T0 real | T1 vec | T2 mat | T3 tensor3

fun K_ndim :: "tensor \<Rightarrow> nat" where
  "K_ndim (T0 _) = 0"
| "K_ndim (T1 _) = 1"
| "K_ndim (T2 _) = 2"
| "K_ndim (T3 _) = 3"

text \<open>Python's \<^verbatim>\<open>xs[i]\<close> for \<open>i \<ge> 0\<close>: IndexError out of range.\<close>

definition item :: "'a list \<Rightarrow> nat \<Rightarrow> error + 'a" where
  "item xs i = (if i < length xs then Inr (xs ! i) else Inl IndexError)"

text \<open>Modelled from the spec: the tensor backend \<^verbatim>\<open>K\<close> (\<^verbatim>\<open>keras/backend\<close>) is not among
  the sources; section 6 of the specification lists what is consumed from it: elementwise
  add/multiply/tanh, matrix multiply, bias-add, softmax, sums along an axis. These are
  the textbook operations, written on the list representation above.\<close>

definition inner :: "vec \<Rightarrow> vec \<Rightarrow> real" where
  "inner x y = sum_list (map2 (*) x y)"

definition K_dot :: "mat \<Rightarrow> kernel \<Rightarrow> mat" where
  "K_dot x W = map (\<lambda>row. map (inner row) W) x"

definition K_bias_add :: "mat \<Rightarrow> vec \<Rightarrow> mat" where
  "K_bias_add x b = map (\<lambda>row. map2 (+) row b) x"

definition t_add :: "mat \<Rightarrow> mat \<Rightarrow> mat" where
  "t_add x y = map2 (map2 (+)) x y"

definition t_mul :: "mat \<Rightarrow> mat \<Rightarrow> mat" where
  "t_mul x y = map2 (map2 (*)) x y"


text \<open>\<^verbatim>\<open>x[:, a:b]\<close>, \<^verbatim>\<open>x[:, :b]\<close> and \<^verbatim>\<open>x[:, a:]\<close> on a \<open>(batch, dim)\<close> tensor, and
  Python's \<^verbatim>\<open>xs[a:b]\<close> on a vector or on the columns of a kernel (empty when
  \<open>b \<le> a\<close>).\<close>

definition cols :: "nat \<Rightarrow> nat \<Rightarrow> mat \<Rightarrow> mat" where
  "cols a b x = map (\<lambda>row. take (b - a) (drop a row)) x"

definition cols_to :: "nat \<Rightarrow> mat \<Rightarrow> mat" where
  "cols_to b x = map (take b) x"

definition cols_from :: "nat \<Rightarrow> mat \<Rightarrow> mat" where
  "cols_from a x = map (drop a) x"

definition py_slice :: "nat \<Rightarrow> nat \<Rightarrow> 'a list \<Rightarrow> 'a list" where
  "py_slice a b xs = take (b - a) (drop a xs)"

definition K_ones :: "nat \<Rightarrow> nat \<Rightarrow> mat" where
  "K_ones n d = replicate n (replicate d 1)"

definition K_zeros :: "nat \<Rightarrow> nat \<Rightarrow> mat" where
  "K_zeros n d = replicate n (replicate d 0)"

text \<open>\<^verbatim>\<open>K.shape(x)[-1]\<close> of a \<open>(batch, dim)\<close> tensor (the list of rows does not record
  \<open>dim\<close> when the batch is empty; it is 0 there).\<close>

definition last_dim :: "mat \<Rightarrow> nat" where
  "last_dim x = (case x of [] \<Rightarrow> 0 | row # _ \<Rightarrow> length row)"

text \<open>\<^verbatim>\<open>x * m\<close> where \<open>m\<close> is a mask entry: a scalar broadcasts, a \<open>(batch, dim)\<close> tensor
  multiplies elementwise; the backend rejects any other rank.\<close>

fun mul_mask :: "mat \<Rightarrow> tensor \<Rightarrow> error + mat" where
  "mul_mask x (T0 s) = Inr (map (map (\<lambda>v. v * s)) x)"
| "mul_mask x (T2 m) = Inr (t_mul x m)"
| "mul_mask x _ = Inl ValueError"

text \<open>Modelled from the spec: \<^verbatim>\<open>K.softmax\<close> over the last (time) axis, as the docstring of
  \<^verbatim>\<open>compute_attention\<close> writes it: \<open>alpha_i = exp e_i / (\<Sum>j. exp e_j)\<close>.\<close>

definition softmax_row :: "vec \<Rightarrow> vec" where
  "softmax_row e = map (\<lambda>x. exp x / sum_list (map exp e)) e"

definition K_softmax :: "mat \<Rightarrow> mat" where
  "K_softmax e = map softmax_row e"

text \<open>\<^verbatim>\<open>K.sum(x, axis=1)\<close> of a \<open>(batch, time, dim)\<close> tensor: the time steps of each
  sample are added up (an empty time axis leaves the empty vector, the list of time steps
  not recording \<open>dim\<close>).\<close>

definition sum_rows :: "mat \<Rightarrow> vec" where
  "sum_rows rows = (case rows of [] \<Rightarrow> [] | r # rs \<Rightarrow> foldl (map2 (+)) r rs)"

definition K_sum_axis1 :: "tensor3 \<Rightarrow> mat" where
  "K_sum_axis1 x = map sum_rows x"

section \<open>The attention scorer \<^verbatim>\<open>compute_attention\<close>\<close>

text \<open>\<^verbatim>\<open>attention_mode\<close> is a string, a callable taking the eight other arguments and
  returning the scores, or another object (\<^verbatim>\<open>None\<close> stands for those: neither equal to a
  mode name nor callable, and not a string).\<close>

datatype att_mode =
    ModeStr string
  | ModeCallable "mat \<Rightarrow> tensor3 \<Rightarrow> tensor3 \<Rightarrow> tensor list \<Rightarrow> kernel \<Rightarrow> vec \<Rightarrow> vec \<Rightarrow> tensor \<Rightarrow> mat"
  | ModeNone

text \<open>The scores \<open>e\<close> of the two built-in modes (lines 72-78).
  \<^verbatim>\<open>K.tanh(pctx_ + p_state_[:, None, :])\<close> adds the projected state of a sample to each of
  its time steps; \<^verbatim>\<open>K.dot_product(pctx_, wa) + bias_ca\<close> contracts the attention axis and
  adds \<open>bias_ca\<close> along time. \<^verbatim>\<open>K.batch_dot(p_state_[:, :, None], pctx_, axes=[1, 2])\<close>
  squeezed is the inner product of the projected state with each time step.\<close>

definition scores_add :: "mat \<Rightarrow> tensor3 \<Rightarrow> vec \<Rightarrow> vec \<Rightarrow> mat" where
  "scores_add p_state pctx wa bias_ca =
     map (\<lambda>(sample, p). map2 (+) (map (\<lambda>step. inner (map tanh (map2 (+) step p)) wa) sample) bias_ca)
         (zip pctx p_state)"

definition scores_dot :: "mat \<Rightarrow> tensor3 \<Rightarrow> mat" where
  "scores_dot p_state pctx = map (\<lambda>(sample, p). map (\<lambda>step. inner p step) sample) (zip pctx p_state)"

text \<open>\<^verbatim>\<open>K.sum(context * alphas[:, :, None], axis=1)\<close>.\<close>

definition weighted_context :: "tensor3 \<Rightarrow> mat \<Rightarrow> mat" where
  "weighted_context context alphas =
     K_sum_axis1 (map (\<lambda>(sample, a). map (\<lambda>(step, w). map (\<lambda>v. v * w) step) (zip sample a))
                      (zip context alphas))"

text \<open>Lines 85-86: the mask multiplies the scores only when it has rank above 1. A
  \<open>(batch, time)\<close> mask multiplies elementwise; the scores have rank 2, and the backend
  rejects a rank-3 mask.\<close>

definition mask_scores :: "tensor \<Rightarrow> mat \<Rightarrow> error + mat" where
  "mask_scores mask_context e =
     (if K_ndim mask_context > 1
      then (case mask_context of T2 m \<Rightarrow> Inr (t_mul m e) | _ \<Rightarrow> Inl ValueError)
      else Inr e)"

definition compute_attention ::
  "mat \<Rightarrow> tensor3 \<Rightarrow> tensor3 \<Rightarrow> tensor list \<Rightarrow> kernel \<Rightarrow> vec \<Rightarrow> vec \<Rightarrow> tensor \<Rightarrow> att_mode
   \<Rightarrow> error + (mat \<times> mat)" where
  "compute_attention h_tm1 pctx context att_dp_mask attention_recurrent_kernel
       attention_context_wa bias_ca mask_context attention_mode =
     bindE (item att_dp_mask 0) (\<lambda>m0.
     bindE (mul_mask h_tm1 m0) (\<lambda>hm.
     let p_state = K_dot hm attention_recurrent_kernel in
     bindE (case attention_mode of
              ModeStr s \<Rightarrow>
                (if s = ''add'' \<or> s = ''bahdanau''
                 then Inr (scores_add p_state pctx attention_context_wa bias_ca)
                 else if s = ''dot'' \<or> s = ''luong''
                 then Inr (scores_dot p_state pctx)
                 else Inl NotImplementedError)
            | ModeCallable f \<Rightarrow>
                Inr (f h_tm1 pctx context att_dp_mask attention_recurrent_kernel
                       attention_context_wa bias_ca mask_context)
            | ModeNone \<Rightarrow> Inl TypeError) (\<lambda>e.
     bindE (mask_scores mask_context e) (\<lambda>e'.
     let alphas = K_softmax e';
         ctx = weighted_context context alphas
     in Inr (ctx, alphas)))))"

text \<open>The weight the valid (unmasked) positions of one sample carry: the entries of a row
  of \<open>alphas\<close> at the positions where the mask row is not zero.\<close>

definition sum_valid :: "vec \<Rightarrow> vec \<Rightarrow> real" where
  "sum_valid mask_row alphas_row =
     sum_list (map snd (filter (\<lambda>(m, a). m \<noteq> 0) (zip mask_row alphas_row)))"

section \<open>Cells and \<^verbatim>\<open>StackedRNNCells\<close>\<close>

text \<open>\<^verbatim>\<open>cell.state_size\<close> is a single integer or a list/tuple of integers; the module
  tells them apart with \<^verbatim>\<open>hasattr(cell.state_size, '__len__')\<close>.\<close>

datatype state_size = SizeInt nat | SizeList "nat list"

text \<open>A cell object as the module uses it: its \<^verbatim>\<open>state_size\<close>, whether its \<^verbatim>\<open>call\<close> has a
  \<^verbatim>\<open>constants\<close> and a \<^verbatim>\<open>training\<close> parameter (\<^verbatim>\<open>has_arg\<close>), and \<^verbatim>\<open>call\<close> itself: from
  the input at one time step, the states, the constants and the training flag to the
  output and the new states. A cell may keep mutable fields (the dropout masks) and draw
  random numbers; what it reads and writes this way is the state \<open>'w\<close> it transforms.\<close>

record ('i, 's, 'c, 'w) Cell =
  state_size :: state_size
  takes_constants :: bool
  takes_training :: bool
  call :: "'i \<Rightarrow> 's list \<Rightarrow> 'c option \<Rightarrow> bool option \<Rightarrow> 'w \<Rightarrow> error + (('i \<times> 's list) \<times> 'w)"

text \<open>The state sizes of a cell as a list: \<^verbatim>\<open>list(cell.state_size)\<close> or
  \<^verbatim>\<open>[cell.state_size]\<close>.\<close>

definition sizes_of :: "state_size \<Rightarrow> nat list" where
  "sizes_of s = (case s of SizeList l \<Rightarrow> l | SizeInt n \<Rightarrow> [n])"

text \<open>\<^verbatim>\<open>StackedRNNCells.state_size\<close> (lines 129-144): the loop over \<^verbatim>\<open>self.cells[::-1]\<close>
  with its accumulator.\<close>

fun state_size_loop :: "('i, 's, 'c, 'w) Cell list \<Rightarrow> nat list \<Rightarrow> nat list" where
  "state_size_loop [] acc = acc"
| "state_size_loop (c # cs) acc =
     state_size_loop cs (case state_size c of SizeList l \<Rightarrow> acc @ l | SizeInt n \<Rightarrow> acc @ [n])"

definition StackedRNNCells_state_size :: "('i, 's, 'c, 'w) Cell list \<Rightarrow> nat list" where
  "StackedRNNCells_state_size cells = state_size_loop (rev cells) []"

text \<open>\<^verbatim>\<open>StackedRNNCells.call\<close> (lines 146-174). First loop: over \<^verbatim>\<open>self.cells[::-1]\<close>, cut
  the chunk of each cell off the front of \<^verbatim>\<open>states\<close> (a slice never raises;
  \<^verbatim>\<open>states[0]\<close> does when no state is left).\<close>

fun recover_states ::
  "('i, 's, 'c, 'w) Cell list \<Rightarrow> 's list \<Rightarrow> 's list list \<Rightarrow> error + 's list list" where
  "recover_states [] states nested_states = Inr nested_states"
| "recover_states (c # cs) states nested_states =
     (case state_size c of
        SizeList l \<Rightarrow>
          recover_states cs (drop (length l) states) (nested_states @ [take (length l) states])
      | SizeInt n \<Rightarrow>
          (case states of
             [] \<Rightarrow> Inl IndexError
           | s # rest \<Rightarrow> recover_states cs rest (nested_states @ [[s]])))"

text \<open>Second loop: over \<^verbatim>\<open>zip(self.cells, nested_states)\<close>, each cell called on the
  output of the one before, the constants passed to the cells that take them, the
  keyword arguments (the training flag) to all.\<close>

fun call_cells ::
  "(('i, 's, 'c, 'w) Cell \<times> 's list) list \<Rightarrow> 'c option \<Rightarrow> bool option \<Rightarrow> 'i \<Rightarrow> 's list list \<Rightarrow> 'w
   \<Rightarrow> error + (('i \<times> 's list list) \<times> 'w)" where
  "call_cells [] constants training inputs new_nested_states w = Inr ((inputs, new_nested_states), w)"
| "call_cells ((c, states) # rest) constants training inputs new_nested_states w =
     (case (if takes_constants c then call c inputs states constants training w
            else call c inputs states None training w) of
        Inl e \<Rightarrow> Inl e
      | Inr ((inputs', states'), w') \<Rightarrow>
          call_cells rest constants training inputs' (new_nested_states @ [states']) w')"

text \<open>Third loop: \<^verbatim>\<open>states += cell_states\<close> over \<^verbatim>\<open>new_nested_states[::-1]\<close>.\<close>

fun flatten_states :: "'s list list \<Rightarrow> 's list \<Rightarrow> 's list" where
  "flatten_states [] states = states"
| "flatten_states (cell_states # rest) states = flatten_states rest (states @ cell_states)"

definition StackedRNNCells_call ::
  "('i, 's, 'c, 'w) Cell list \<Rightarrow> 'i \<Rightarrow> 's list \<Rightarrow> 'c option \<Rightarrow> bool option \<Rightarrow> 'w
   \<Rightarrow> error + (('i \<times> 's list) \<times> 'w)" where
  "StackedRNNCells_call cells inputs states constants training w =
     bindE (recover_states (rev cells) states []) (\<lambda>nested.
     let nested_states = rev nested in
     bindE (call_cells (zip cells nested_states) constants training inputs [] w)
       (\<lambda>((inputs', new_nested_states), w').
          Inr ((inputs', flatten_states (rev new_nested_states) []), w')))"

text \<open>The stack is itself a cell (\<^verbatim>\<open>RNN.__init__\<close> wraps a list of cells in it). Its
  \<^verbatim>\<open>call\<close> has a \<^verbatim>\<open>constants\<close> parameter and no \<^verbatim>\<open>training\<close> parameter of its own.\<close>

definition StackedRNNCells :: "('i, 's, 'c, 'w) Cell list \<Rightarrow> ('i, 's, 'c, 'w) Cell" where
  "StackedRNNCells cells =
     \<lparr>state_size = SizeList (StackedRNNCells_state_size cells),
      takes_constants = True,
      takes_training = False,
      call = StackedRNNCells_call cells\<rparr>"

text \<open>The stacking contract in the words of the specification (section 4.3), to compare the
  loops above with: the cells run in forward order, cell 0 first on the external input
  and its own chunk of states, each later cell on the output of the one before.\<close>

fun stack_forward ::
  "('i, 's, 'c, 'w) Cell list \<Rightarrow> 's list list \<Rightarrow> 'c option \<Rightarrow> bool option \<Rightarrow> 'i \<Rightarrow> 'w
   \<Rightarrow> error + (('i \<times> 's list list) \<times> 'w)" where
  "stack_forward (c # cs) (chunk # chunks) constants training x w =
     (case call c x chunk (if takes_constants c then constants else None) training w of
        Inl e \<Rightarrow> Inl e
      | Inr ((y, new_chunk), w') \<Rightarrow>
          (case stack_forward cs chunks constants training y w' of
             Inl e \<Rightarrow> Inl e
           | Inr ((z, new_chunks), w'') \<Rightarrow> Inr ((z, new_chunk # new_chunks), w'')))"
| "stack_forward _ _ constants training x w = Inr ((x, []), w)"

section \<open>The temporal scan driver\<close>





section \<open>The base layer \<^verbatim>\<open>RNN\<close>\<close>



text \<open>The fields of an \<^verbatim>\<open>RNN\<close> layer that \<^verbatim>\<open>call\<close> and \<^verbatim>\<open>reset_states\<close> read and write.
  \<open>states_var\<close> is \<^verbatim>\<open>self._states\<close> (a state is \<open>None\<close> until it is created),
  \<open>batch_size_spec\<close> is \<^verbatim>\<open>self.input_spec[0].shape[0]\<close> and \<open>num_constants\<close> is
  \<^verbatim>\<open>self._num_constants\<close>.\<close>

record 'w RNN =
  cell :: "(mat, tensor, tensor list, 'w) Cell"
  return_sequences :: bool
  return_state :: bool
  go_backwards :: bool
  stateful :: bool
  unroll :: bool
  states_var :: "tensor option list option"
  batch_size_spec :: "nat option"
  num_constants :: "nat option"

text \<open>The property \<^verbatim>\<open>RNN.states\<close> (lines 465-473).\<close>

definition RNN_states :: "'w RNN \<Rightarrow> tensor option list" where
  "RNN_states layer =
     (case states_var layer of
        None \<Rightarrow>
          (let num_states = (case state_size (cell layer) of
                               SizeInt _ \<Rightarrow> 1
                             | SizeList l \<Rightarrow> length l)
           in replicate num_states None)
      | Some s \<Rightarrow> s)"







text \<open>\<^verbatim>\<open>RNN.reset_states\<close> (lines 745-795), on a built layer. The method returns nothing:
  its result here is the exception it raises, if any, and the layer as it stands then (a
  loop that raises midway has already assigned the states before). \<^verbatim>\<open>value.shape\<close> of a
  numpy array:\<close>

fun np_shape :: "tensor \<Rightarrow> nat list" where
  "np_shape (T0 _) = []"
| "np_shape (T1 v) = [length v]"
| "np_shape (T2 m) = [length m, last_dim m]"
| "np_shape (T3 t) = [length t, length (hd t), last_dim (hd t)]"

datatype states_arg = NoStates | OneState tensor | StateList "tensor list"

text \<open>\<^verbatim>\<open>K.set_value(state, value)\<close> on each pair of \<^verbatim>\<open>zip(self.states, self.cell.state_size)\<close>
  assigns the state variable in place; a state that is \<open>None\<close> is no variable.\<close>

fun zero_states ::
  "nat \<Rightarrow> (tensor option \<times> nat) list \<Rightarrow> tensor option list \<Rightarrow> error option \<times> tensor option list" where
  "zero_states batch_size [] assigned = (None, assigned)"
| "zero_states batch_size ((None, d) # rest) assigned = (Some AttributeError, assigned)"
| "zero_states batch_size ((Some _, d) # rest) assigned =
     zero_states batch_size rest (assigned @ [Some (T2 (K_zeros batch_size d))])"

text \<open>The loop over \<^verbatim>\<open>enumerate(zip(states, self.states))\<close>: the states assigned so far,
  and the exception that stops the loop, if any.\<close>

fun assign_states ::
  "state_size \<Rightarrow> nat \<Rightarrow> nat \<Rightarrow> (tensor \<times> tensor option) list \<Rightarrow> tensor option list
   \<Rightarrow> error option \<times> tensor option list" where
  "assign_states ssize batch_size index [] assigned = (None, assigned)"
| "assign_states ssize batch_size index ((v, state) # rest) assigned =
     (case (case ssize of SizeList l \<Rightarrow> item l index | SizeInt n \<Rightarrow> Inr n) of
        Inl e \<Rightarrow> (Some e, assigned)
      | Inr d \<Rightarrow>
          if np_shape v \<noteq> [batch_size, d] then (Some ValueError, assigned)
          else (case state of
                  None \<Rightarrow> (Some AttributeError, assigned)
                | Some _ \<Rightarrow> assign_states ssize batch_size (Suc index) rest (assigned @ [Some v])))"

definition reset_states :: "'w RNN \<Rightarrow> states_arg \<Rightarrow> error option \<times> 'w RNN" where
  "reset_states layer states =
     (if \<not> stateful layer then (Some AttributeError, layer)
      else
        (case batch_size_spec layer of
           None \<Rightarrow> (Some ValueError, layer)
         | Some batch_size \<Rightarrow>
             if batch_size = 0 then (Some ValueError, layer)
             else
               (case RNN_states layer of
                  [] \<Rightarrow> (Some IndexError, layer)
                | s0 # _ \<Rightarrow>
                    if s0 = None
                    then (None, layer\<lparr>states_var :=
                            Some (map (\<lambda>d. Some (T2 (K_zeros batch_size d)))
                                    (sizes_of (state_size (cell layer))))\<rparr>)
                    else if states = NoStates
                    then
                      (let cur = RNN_states layer in
                       case state_size (cell layer) of
                         SizeList l \<Rightarrow>
                           (case zero_states batch_size (zip cur l) [] of
                              (err, assigned) \<Rightarrow>
                                (err, layer\<lparr>states_var := Some (assigned @ drop (length assigned) cur)\<rparr>))
                       | SizeInt n \<Rightarrow>
                           (None, layer\<lparr>states_var :=
                              Some (Some (T2 (K_zeros batch_size n)) # tl cur)\<rparr>))
                    else
                      (let values = (case states of StateList l \<Rightarrow> l | OneState v \<Rightarrow> [v] | NoStates \<Rightarrow> []);
                           cur = RNN_states layer
                       in if length values \<noteq> length cur then (Some ValueError, layer)
                          else
                            (case assign_states (state_size (cell layer)) batch_size 0 (zip values cur) [] of
                               (err, assigned) \<Rightarrow>
                                 (err, layer\<lparr>states_var := Some (assigned @ drop (length assigned) cur)\<rparr>))))))"

section \<open>Dropout masks\<close>

text \<open>What a cell reads and writes besides its arguments: the cell object itself (its
  cached dropout masks are fields of it), and the number of random tensors drawn from the
  backend so far. \<open>used\<close> is an observation, not a field of the program: each call of a
  cell appends the pair \<^verbatim>\<open>(dp_mask, rec_dp_mask)\<close> it read from its fields for this time
  step, so that a property of "the mask every time step multiplies by" can be stated.\<close>

record 'c world =
  the_cell :: 'c
  draws :: nat
  used :: "(mat list option \<times> mat list option) list"

text \<open>Modelled from the spec: \<^verbatim>\<open>K.dropout\<close> and \<^verbatim>\<open>K.in_train_phase\<close> belong to the backend
  (section 6: "dropout-with-train/inference-switch"). The \<open>n\<close>-th random tensor the
  backend draws for \<^verbatim>\<open>K.dropout(ones, rate)\<close> is \<open>sampler n ones rate\<close>, for an arbitrary
  function \<open>sampler\<close>; in training phase the dropped tensor is taken, otherwise \<open>ones\<close>.
  \<open>learning_phase\<close> is the phase in force when \<^verbatim>\<open>training\<close> is \<open>None\<close>.\<close>

definition in_train_phase :: "bool \<Rightarrow> bool option \<Rightarrow> bool" where
  "in_train_phase learning_phase training = (case training of None \<Rightarrow> learning_phase | Some b \<Rightarrow> b)"

text \<open>\<^verbatim>\<open>_generate_dropout_ones\<close> (lines 4535-4542).\<close>

definition generate_dropout_ones :: "mat \<Rightarrow> nat \<Rightarrow> mat" where
  "generate_dropout_ones inputs dims = K_ones (length inputs) dims"

text \<open>\<^verbatim>\<open>_generate_dropout_mask\<close> (lines 4545-4557): \<open>count\<close> masks, each drawn on its own,
  and the number of draws afterwards. For \<open>count \<le> 1\<close> the source returns the one tensor
  bare; here it is the list of that one tensor.\<close>

definition generate_dropout_mask ::
  "(nat \<Rightarrow> mat \<Rightarrow> real \<Rightarrow> mat) \<Rightarrow> bool \<Rightarrow> mat \<Rightarrow> real \<Rightarrow> bool option \<Rightarrow> nat \<Rightarrow> nat \<Rightarrow> mat list \<times> nat" where
  "generate_dropout_mask sampler learning_phase ones rate training count n =
     (let k = (if count > 1 then count else 1) in
      if in_train_phase learning_phase training
      then (map (\<lambda>i. sampler (n + i) ones rate) [0..<k], n + k)
      else (replicate k ones, n))"

text \<open>The first statements of \<^verbatim>\<open>SimpleRNNCell.call\<close> (lines 957-966), \<^verbatim>\<open>GRUCell.call\<close>
  (lines 1397-1406) and \<^verbatim>\<open>LSTMCell.call\<close> (lines 4171-4181), which differ in \<open>count\<close>
  only: a mask is generated when its rate is strictly between 0 and 1 and the field is
  \<open>None\<close>, and kept otherwise. The result is the two fields afterwards and the number of
  draws.\<close>

definition lazy_dropout_masks ::
  "(nat \<Rightarrow> mat \<Rightarrow> real \<Rightarrow> mat) \<Rightarrow> bool \<Rightarrow> mat \<Rightarrow> nat \<Rightarrow> real \<Rightarrow> real
   \<Rightarrow> mat list option \<Rightarrow> mat list option \<Rightarrow> bool option \<Rightarrow> nat \<Rightarrow> nat
   \<Rightarrow> mat list option \<times> mat list option \<times> nat" where
  "lazy_dropout_masks sampler learning_phase inputs n_units rate recurrent_rate
       dropout_mask_field recurrent_dropout_mask_field training count n =
     (let (dp_mask, n1) =
            (if 0 < rate \<and> rate < 1 \<and> dropout_mask_field = None
             then (case generate_dropout_mask sampler learning_phase
                          (generate_dropout_ones inputs (last_dim inputs)) rate training count n of
                     (ms, n') \<Rightarrow> (Some ms, n'))
             else (dropout_mask_field, n));
          (rec_dp_mask, n2) =
            (if 0 < recurrent_rate \<and> recurrent_rate < 1 \<and> recurrent_dropout_mask_field = None
             then (case generate_dropout_mask sampler learning_phase
                          (generate_dropout_ones inputs n_units) recurrent_rate training count n1 of
                     (ms, n') \<Rightarrow> (Some ms, n'))
             else (recurrent_dropout_mask_field, n1))
      in (dp_mask, rec_dp_mask, n2))"

text \<open>\<^verbatim>\<open>dp_mask[i]\<close> where \<^verbatim>\<open>dp_mask\<close> is a cached mask field: \<open>None\<close> cannot be indexed.\<close>

definition mask_item :: "mat list option \<Rightarrow> nat \<Rightarrow> error + mat" where
  "mask_item dp i = (case dp of None \<Rightarrow> Inl TypeError | Some ms \<Rightarrow> item ms i)"

text \<open>\<^verbatim>\<open>states[i]\<close> where a \<open>(batch, dim)\<close> tensor is expected.\<close>

definition state_item :: "tensor list \<Rightarrow> nat \<Rightarrow> error + mat" where
  "state_item states i =
     bindE (item states i) (\<lambda>s. case s of T2 m \<Rightarrow> Inr m | _ \<Rightarrow> Inl TypeError)"

section \<open>\<^verbatim>\<open>SimpleRNNCell\<close> and \<^verbatim>\<open>SimpleRNN\<close>\<close>

text \<open>The fields of a built \<^verbatim>\<open>SimpleRNNCell\<close> that \<^verbatim>\<open>call\<close> reads. \<open>activation\<close> is the
  function \<^verbatim>\<open>activations.get\<close> returned (the identity for \<open>None\<close>, so the test
  \<^verbatim>\<open>self.activation is not None\<close> always holds); \<open>bias\<close> is \<open>None\<close> without
  \<^verbatim>\<open>use_bias\<close>; \<open>dropout_mask\<close> and \<open>recurrent_dropout_mask\<close> are the fields
  \<^verbatim>\<open>_dropout_mask\<close> and \<^verbatim>\<open>_recurrent_dropout_mask\<close>.\<close>

record SimpleRNNCell =
  units :: nat
  activation :: "mat \<Rightarrow> mat"
  use_bias :: bool
  dropout :: real
  recurrent_dropout :: real
  kernel :: kernel
  recurrent_kernel :: kernel
  bias :: "vec option"
  dropout_mask :: "mat list option"
  recurrent_dropout_mask :: "mat list option"

text \<open>\<^verbatim>\<open>SimpleRNNCell.call\<close> (lines 955-988).\<close>

definition SimpleRNNCell_call ::
  "(nat \<Rightarrow> mat \<Rightarrow> real \<Rightarrow> mat) \<Rightarrow> bool \<Rightarrow> mat \<Rightarrow> tensor list \<Rightarrow> bool option \<Rightarrow> SimpleRNNCell world
   \<Rightarrow> error + ((mat \<times> tensor list) \<times> SimpleRNNCell world)" where
  "SimpleRNNCell_call sampler learning_phase inputs states training w =
     bindE (state_item states 0) (\<lambda>prev_output.
     let c = the_cell w;
         (dp_mask, rec_dp_mask, n2) =
           lazy_dropout_masks sampler learning_phase inputs (SimpleRNNCell.units c)
             (SimpleRNNCell.dropout c) (SimpleRNNCell.recurrent_dropout c)
             (SimpleRNNCell.dropout_mask c) (SimpleRNNCell.recurrent_dropout_mask c) training 1 (draws w);
         w' = w\<lparr>the_cell := c\<lparr>SimpleRNNCell.dropout_mask := dp_mask,
                                SimpleRNNCell.recurrent_dropout_mask := rec_dp_mask\<rparr>,
                draws := n2,
                used := used w @ [(dp_mask, rec_dp_mask)]\<rparr>
     in
     bindE (if dp_mask \<noteq> None
            then bindE (mask_item dp_mask 0) (\<lambda>m. Inr (K_dot (t_mul inputs m) (SimpleRNNCell.kernel c)))
            else Inr (K_dot inputs (SimpleRNNCell.kernel c))) (\<lambda>h0.
     let h = (case SimpleRNNCell.bias c of Some b \<Rightarrow> K_bias_add h0 b | None \<Rightarrow> h0) in
     bindE (if rec_dp_mask \<noteq> None
            then bindE (mask_item rec_dp_mask 0) (\<lambda>m. Inr (t_mul prev_output m))
            else Inr prev_output) (\<lambda>prev_output'.
     let output = SimpleRNNCell.activation c
                    (t_add h (K_dot prev_output' (SimpleRNNCell.recurrent_kernel c)))
     in Inr ((output, [T2 output]), w'))))"

text \<open>The cell as \<^verbatim>\<open>RNN\<close> sees it: \<^verbatim>\<open>state_size = units\<close>, a \<^verbatim>\<open>training\<close> parameter and no
  \<^verbatim>\<open>constants\<close> parameter.\<close>

definition SimpleRNNCell_obj ::
  "(nat \<Rightarrow> mat \<Rightarrow> real \<Rightarrow> mat) \<Rightarrow> bool \<Rightarrow> nat \<Rightarrow> (mat, tensor, tensor list, SimpleRNNCell world) Cell" where
  "SimpleRNNCell_obj sampler learning_phase n =
     \<lparr>state_size = SizeInt n, takes_constants = False, takes_training = True,
      call = (\<lambda>x states constants training w.
                SimpleRNNCell_call sampler learning_phase x states training w)\<rparr>"


section \<open>\<^verbatim>\<open>GRUCell\<close> and \<^verbatim>\<open>GRU\<close>\<close>

text \<open>The fields of a built \<^verbatim>\<open>GRUCell\<close>. \<open>input_bias\<close> is read when \<open>use_bias\<close> holds and
  \<open>recurrent_bias\<close> when \<open>reset_after\<close> holds as well (\<^verbatim>\<open>build\<close>, lines 1341-1362).\<close>

record GRUCell =
  units :: nat
  activation :: "mat \<Rightarrow> mat"
  recurrent_activation :: "mat \<Rightarrow> mat"
  use_bias :: bool
  dropout :: real
  recurrent_dropout :: real
  implementation :: int
  reset_after :: bool
  kernel :: kernel
  recurrent_kernel :: kernel
  input_bias :: vec
  recurrent_bias :: vec
  dropout_mask :: "mat list option"
  recurrent_dropout_mask :: "mat list option"







section \<open>\<^verbatim>\<open>LSTMCell\<close> and \<^verbatim>\<open>LSTM\<close>\<close>

text \<open>An initializer object is called with a shape and returns a fresh tensor; a random
  one returns a different tensor each time, so its \<open>i\<close>-th invocation on a shape is a
  function of \<open>i\<close> as well. A bias initializer gets the length of a vector, a kernel
  initializer the rows and columns of a matrix.\<close>

record LSTMCell =
  units :: nat
  activation :: "mat \<Rightarrow> mat"
  recurrent_activation :: "mat \<Rightarrow> mat"
  use_bias :: bool
  kernel_initializer :: "nat \<Rightarrow> nat \<Rightarrow> kernel"
  recurrent_initializer :: "nat \<Rightarrow> nat \<Rightarrow> kernel"
  bias_initializer :: "nat \<Rightarrow> nat \<Rightarrow> vec"
  unit_forget_bias :: bool
  dropout :: real
  recurrent_dropout :: real
  implementation :: int
  kernel :: kernel
  recurrent_kernel :: kernel
  bias :: "vec option"
  dropout_mask :: "mat list option"
  recurrent_dropout_mask :: "mat list option"

text \<open>\<^verbatim>\<open>LSTMCell.build\<close> (lines 4116-4168): \<^verbatim>\<open>add_weight\<close> calls the initializer on the
  shape. With \<^verbatim>\<open>unit_forget_bias\<close> the initializer of the bias is the local function that
  ignores the shape and concatenates three pieces: the configured initializer's output
  for \<open>units\<close> entries, ones for \<open>units\<close> entries, and the configured initializer's
  output (its second invocation) for \<open>2 * units\<close> entries.\<close>

definition LSTMCell_build :: "LSTMCell \<Rightarrow> nat \<Rightarrow> LSTMCell" where
  "LSTMCell_build c input_dim =
     c\<lparr>LSTMCell.kernel := kernel_initializer c input_dim (LSTMCell.units c * 4),
       LSTMCell.recurrent_kernel := recurrent_initializer c (LSTMCell.units c) (LSTMCell.units c * 4),
       LSTMCell.bias :=
         (if LSTMCell.use_bias c
          then (if unit_forget_bias c
                then Some (bias_initializer c 0 (LSTMCell.units c)
                           @ replicate (LSTMCell.units c) 1
                           @ bias_initializer c 1 (LSTMCell.units c * 2))
                else Some (bias_initializer c 0 (LSTMCell.units c * 4)))
          else None)\<rparr>"

text \<open>The gate slices of the weights (lines 4148-4167).\<close>

definition kernel_i :: "LSTMCell \<Rightarrow> kernel" where
  "kernel_i c = take (LSTMCell.units c) (LSTMCell.kernel c)"
definition kernel_f :: "LSTMCell \<Rightarrow> kernel" where
  "kernel_f c = py_slice (LSTMCell.units c) (LSTMCell.units c * 2) (LSTMCell.kernel c)"
definition kernel_c :: "LSTMCell \<Rightarrow> kernel" where
  "kernel_c c = py_slice (LSTMCell.units c * 2) (LSTMCell.units c * 3) (LSTMCell.kernel c)"
definition kernel_o :: "LSTMCell \<Rightarrow> kernel" where
  "kernel_o c = drop (LSTMCell.units c * 3) (LSTMCell.kernel c)"
definition recurrent_kernel_i :: "LSTMCell \<Rightarrow> kernel" where
  "recurrent_kernel_i c = take (LSTMCell.units c) (LSTMCell.recurrent_kernel c)"
definition recurrent_kernel_f :: "LSTMCell \<Rightarrow> kernel" where
  "recurrent_kernel_f c = py_slice (LSTMCell.units c) (LSTMCell.units c * 2) (LSTMCell.recurrent_kernel c)"
definition recurrent_kernel_c :: "LSTMCell \<Rightarrow> kernel" where
  "recurrent_kernel_c c = py_slice (LSTMCell.units c * 2) (LSTMCell.units c * 3) (LSTMCell.recurrent_kernel c)"
definition recurrent_kernel_o :: "LSTMCell \<Rightarrow> kernel" where
  "recurrent_kernel_o c = drop (LSTMCell.units c * 3) (LSTMCell.recurrent_kernel c)"
definition bias_i :: "LSTMCell \<Rightarrow> vec option" where
  "bias_i c = (if LSTMCell.use_bias c then map_option (take (LSTMCell.units c)) (LSTMCell.bias c) else None)"
definition bias_f :: "LSTMCell \<Rightarrow> vec option" where
  "bias_f c = (if LSTMCell.use_bias c
               then map_option (py_slice (LSTMCell.units c) (LSTMCell.units c * 2)) (LSTMCell.bias c)
               else None)"
definition bias_c :: "LSTMCell \<Rightarrow> vec option" where
  "bias_c c = (if LSTMCell.use_bias c
               then map_option (py_slice (LSTMCell.units c * 2) (LSTMCell.units c * 3)) (LSTMCell.bias c)
               else None)"
definition bias_o :: "LSTMCell \<Rightarrow> vec option" where
  "bias_o c = (if LSTMCell.use_bias c then map_option (drop (LSTMCell.units c * 3)) (LSTMCell.bias c) else None)"

text \<open>\<^verbatim>\<open>K.bias_add(x, b)\<close> where \<open>b\<close> is a bias attribute that is \<open>None\<close> without
  \<^verbatim>\<open>use_bias\<close>.\<close>

definition bias_add_opt :: "mat \<Rightarrow> vec option \<Rightarrow> error + mat" where
  "bias_add_opt x b = (case b of None \<Rightarrow> Inl TypeError | Some v \<Rightarrow> Inr (K_bias_add x v))"

text \<open>The branch \<^verbatim>\<open>if self.implementation == 1\<close> of \<^verbatim>\<open>LSTMCell.call\<close> (lines 4191-4229); it
  leaves \<open>c\<close> and the output gate \<^verbatim>\<open>o\<close> (\<open>o_gate\<close> here).\<close>

definition LSTMCell_impl1 ::
  "LSTMCell \<Rightarrow> mat \<Rightarrow> mat \<Rightarrow> mat \<Rightarrow> mat list option \<Rightarrow> mat list option \<Rightarrow> error + (mat \<times> mat)" where
  "LSTMCell_impl1 self inputs h_tm1 c_tm1 dp_mask rec_dp_mask =
     bindE (if 0 < LSTMCell.dropout self \<and> LSTMCell.dropout self < 1
            then bindE (mask_item dp_mask 0) (\<lambda>m0.
                 bindE (mask_item dp_mask 1) (\<lambda>m1.
                 bindE (mask_item dp_mask 2) (\<lambda>m2.
                 bindE (mask_item dp_mask 3) (\<lambda>m3.
                   Inr (t_mul inputs m0, t_mul inputs m1, t_mul inputs m2, t_mul inputs m3)))))
            else Inr (inputs, inputs, inputs, inputs)) (\<lambda>(inputs_i, inputs_f, inputs_c, inputs_o).
     bindE (if LSTMCell.use_bias self
            then bindE (bias_add_opt (K_dot inputs_i (kernel_i self)) (bias_i self)) (\<lambda>x_i.
                 bindE (bias_add_opt (K_dot inputs_f (kernel_f self)) (bias_f self)) (\<lambda>x_f.
                 bindE (bias_add_opt (K_dot inputs_c (kernel_c self)) (bias_c self)) (\<lambda>x_c.
                 bindE (bias_add_opt (K_dot inputs_o (kernel_o self)) (bias_o self)) (\<lambda>x_o.
                   Inr (x_i, x_f, x_c, x_o)))))
            else Inr (K_dot inputs_i (kernel_i self), K_dot inputs_f (kernel_f self),
                      K_dot inputs_c (kernel_c self), K_dot inputs_o (kernel_o self)))
       (\<lambda>(x_i, x_f, x_c, x_o).
     bindE (if 0 < LSTMCell.recurrent_dropout self \<and> LSTMCell.recurrent_dropout self < 1
            then bindE (mask_item rec_dp_mask 0) (\<lambda>m0.
                 bindE (mask_item rec_dp_mask 1) (\<lambda>m1.
                 bindE (mask_item rec_dp_mask 2) (\<lambda>m2.
                 bindE (mask_item rec_dp_mask 3) (\<lambda>m3.
                   Inr (t_mul h_tm1 m0, t_mul h_tm1 m1, t_mul h_tm1 m2, t_mul h_tm1 m3)))))
            else Inr (h_tm1, h_tm1, h_tm1, h_tm1)) (\<lambda>(h_tm1_i, h_tm1_f, h_tm1_c, h_tm1_o).
     let i = LSTMCell.recurrent_activation self (t_add x_i (K_dot h_tm1_i (recurrent_kernel_i self)));
         f = LSTMCell.recurrent_activation self (t_add x_f (K_dot h_tm1_f (recurrent_kernel_f self)));
         c = t_add (t_mul f c_tm1)
               (t_mul i (LSTMCell.activation self (t_add x_c (K_dot h_tm1_c (recurrent_kernel_c self)))));
         o_gate = LSTMCell.recurrent_activation self (t_add x_o (K_dot h_tm1_o (recurrent_kernel_o self)))
     in Inr (c, o_gate))))"

text \<open>The \<^verbatim>\<open>else\<close> branch (lines 4230-4248).\<close>

definition LSTMCell_impl2 ::
  "LSTMCell \<Rightarrow> mat \<Rightarrow> mat \<Rightarrow> mat \<Rightarrow> mat list option \<Rightarrow> mat list option \<Rightarrow> error + (mat \<times> mat)" where
  "LSTMCell_impl2 self inputs0 h_tm1_0 c_tm1 dp_mask rec_dp_mask =
     bindE (if 0 < LSTMCell.dropout self \<and> LSTMCell.dropout self < 1
            then bindE (mask_item dp_mask 0) (\<lambda>m0. Inr (t_mul inputs0 m0))
            else Inr inputs0) (\<lambda>inputs.
     let z = K_dot inputs (LSTMCell.kernel self) in
     bindE (if 0 < LSTMCell.recurrent_dropout self \<and> LSTMCell.recurrent_dropout self < 1
            then bindE (mask_item rec_dp_mask 0) (\<lambda>m0. Inr (t_mul h_tm1_0 m0))
            else Inr h_tm1_0) (\<lambda>h_tm1.
     let z = t_add z (K_dot h_tm1 (LSTMCell.recurrent_kernel self)) in
     bindE (if LSTMCell.use_bias self then bias_add_opt z (LSTMCell.bias self) else Inr z) (\<lambda>z.
     let z0 = cols_to (LSTMCell.units self) z;
         z1 = cols (LSTMCell.units self) (2 * LSTMCell.units self) z;
         z2 = cols (2 * LSTMCell.units self) (3 * LSTMCell.units self) z;
         z3 = cols_from (3 * LSTMCell.units self) z;
         i = LSTMCell.recurrent_activation self z0;
         f = LSTMCell.recurrent_activation self z1;
         c = t_add (t_mul f c_tm1) (t_mul i (LSTMCell.activation self z2));
         o_gate = LSTMCell.recurrent_activation self z3
     in Inr (c, o_gate))))"

text \<open>\<^verbatim>\<open>LSTMCell.call\<close> (lines 4170-4254): the masks first, then the two states.\<close>

definition LSTMCell_call ::
  "(nat \<Rightarrow> mat \<Rightarrow> real \<Rightarrow> mat) \<Rightarrow> bool \<Rightarrow> mat \<Rightarrow> tensor list \<Rightarrow> bool option \<Rightarrow> LSTMCell world
   \<Rightarrow> error + ((mat \<times> tensor list) \<times> LSTMCell world)" where
  "LSTMCell_call sampler learning_phase inputs states training w =
     (let self = the_cell w;
          (dp_mask, rec_dp_mask, n2) =
            lazy_dropout_masks sampler learning_phase inputs (LSTMCell.units self)
              (LSTMCell.dropout self) (LSTMCell.recurrent_dropout self)
              (LSTMCell.dropout_mask self) (LSTMCell.recurrent_dropout_mask self) training 4 (draws w);
          w' = w\<lparr>the_cell := self\<lparr>LSTMCell.dropout_mask := dp_mask,
                                    LSTMCell.recurrent_dropout_mask := rec_dp_mask\<rparr>,
                 draws := n2,
                 used := used w @ [(dp_mask, rec_dp_mask)]\<rparr>
      in
      bindE (state_item states 0) (\<lambda>h_tm1.
      bindE (state_item states 1) (\<lambda>c_tm1.
      bindE (if LSTMCell.implementation self = 1
             then LSTMCell_impl1 self inputs h_tm1 c_tm1 dp_mask rec_dp_mask
             else LSTMCell_impl2 self inputs h_tm1 c_tm1 dp_mask rec_dp_mask) (\<lambda>(c, o_gate).
      let h = t_mul o_gate (LSTMCell.activation self c)
      in Inr ((h, [T2 h, T2 c]), w')))))"



section \<open>Conditional and attentional variants: the constants and the step\<close>

text \<open>The scan driver hands the step function of these layers one list
  \<^verbatim>\<open>states\<close> holding the recurrent states followed by the constants; an entry is a
  tensor or a list of dropout masks.\<close>

datatype slot = Ten tensor | Masks "tensor list"

text \<open>The list comprehension \<^verbatim>\<open>[K.in_train_phase(dropped_inputs, ones, training) for _ in
  range(k)]\<close> of the \<^verbatim>\<open>get_constants\<close> methods, and its alternative
  \<^verbatim>\<open>[K.cast_to_floatx(1.) for _ in range(k)]\<close>.\<close>

definition dropped_masks ::
  "(nat \<Rightarrow> mat \<Rightarrow> real \<Rightarrow> mat) \<Rightarrow> bool \<Rightarrow> mat \<Rightarrow> real \<Rightarrow> bool option \<Rightarrow> nat \<Rightarrow> nat \<Rightarrow> tensor list \<times> nat" where
  "dropped_masks sampler learning_phase ones rate training k n =
     (if in_train_phase learning_phase training
      then (map (\<lambda>i. T2 (sampler (n + i) ones rate)) [0..<k], n + k)
      else (replicate k (T2 ones), n))"

definition unit_masks :: "nat \<Rightarrow> tensor list" where
  "unit_masks k = replicate k (T0 1)"

text \<open>\<^verbatim>\<open>K.ones_like(K.squeeze(context[:, 0:1, :], axis=1))\<close>: a \<open>(batch, dim)\<close> tensor of
  ones shaped after the first time step of the context.\<close>

definition ones_like_first_step :: "tensor3 \<Rightarrow> mat" where
  "ones_like_first_step context =
     map (\<lambda>sample. case sample of [] \<Rightarrow> [] | step # _ \<Rightarrow> map (\<lambda>_. 1) step) context"

text \<open>The context mask derived when none is given (lines 2176-2180, 6117-6121, and the same
  two statements in every other variant):
  \<^verbatim>\<open>K.cast(K.not_equal(K.sum(self.context, axis=2), self.mask_value), K.floatx())\<close>.\<close>

definition derived_mask :: "tensor3 \<Rightarrow> real \<Rightarrow> mat" where
  "derived_mask context mask_value =
     map (\<lambda>sample. map (\<lambda>features. if sum_list features \<noteq> mask_value then 1 else 0) sample) context"

record GRUCond =
  units :: nat
  static_ctx :: bool
  dropout :: real
  recurrent_dropout :: real
  mask_value :: real
  side_context :: tensor3

text \<open>\<^verbatim>\<open>GRUCond.get_constants\<close> (lines 2140-2182): the constants and the number of draws
  afterwards. \<open>side_context\<close> is \<^verbatim>\<open>self.context\<close>, the side context \<^verbatim>\<open>call\<close> stored
  before.\<close>

definition GRUCond_get_constants ::
  "(nat \<Rightarrow> mat \<Rightarrow> real \<Rightarrow> mat) \<Rightarrow> bool \<Rightarrow> GRUCond \<Rightarrow> tensor3 \<Rightarrow> tensor option \<Rightarrow> bool option \<Rightarrow> nat
   \<Rightarrow> slot list \<times> nat" where
  "GRUCond_get_constants sampler learning_phase self inputs mask_context training n =
     (let (rec_dp_mask, n1) =
            (if 0 < GRUCond.recurrent_dropout self \<and> GRUCond.recurrent_dropout self < 1
             then dropped_masks sampler learning_phase (K_ones (length inputs) (GRUCond.units self))
                    (GRUCond.recurrent_dropout self) training 3 n
             else (unit_masks 3, n));
          constants = [Masks rec_dp_mask];
          (dp_mask, n2) =
            (if 0 < GRUCond.dropout self \<and> GRUCond.dropout self < 1
             then dropped_masks sampler learning_phase (ones_like_first_step (GRUCond.side_context self))
                    (GRUCond.dropout self) training 3 n1
             else (unit_masks 3, n1));
          constants = (if static_ctx self then constants @ [Masks dp_mask] else constants);
          constants = constants @ [Ten (T3 (GRUCond.side_context self))];
          mask_context' =
            (case mask_context of
               None \<Rightarrow> T2 (derived_mask (GRUCond.side_context self) (GRUCond.mask_value self))
             | Some m \<Rightarrow> m);
          constants = constants @ [Ten mask_context']
      in (constants, n2))"

record AttLSTMCond =
  units :: nat
  use_bias :: bool
  dropout :: real
  recurrent_dropout :: real
  attention_dropout :: real
  mask_value :: real
  side_context :: tensor3
  attention_context_kernel :: kernel
  bias_ba :: vec

text \<open>Modelled from the spec: the backend's random tensor for \<^verbatim>\<open>K.dropout\<close> on a
  \<open>(batch, time, dim)\<close> tensor is \<open>sampler3 n ones rate\<close> at the \<open>n\<close>-th draw, and the
  product of a \<open>(batch, time, dim)\<close> tensor with a kernel and the bias-add apply to each
  sample.\<close>

definition K_dot3 :: "tensor3 \<Rightarrow> kernel \<Rightarrow> tensor3" where
  "K_dot3 x W = map (\<lambda>sample. K_dot sample W) x"

definition K_bias_add3 :: "tensor3 \<Rightarrow> vec \<Rightarrow> tensor3" where
  "K_bias_add3 x b = map (\<lambda>sample. K_bias_add sample b) x"

definition t_mul3 :: "tensor3 \<Rightarrow> tensor3 \<Rightarrow> tensor3" where
  "t_mul3 x y = map2 t_mul x y"

text \<open>\<^verbatim>\<open>AttLSTMCond.get_constants\<close> (lines 6054-6123). The attention mask of the state is
  dropped with the rate \<^verbatim>\<open>self.recurrent_dropout\<close> (line 6092), and the mask \<^verbatim>\<open>B_Ua\<close> of
  the context is drawn whatever the phase and chosen by the learning phase in force
  (line 6105).\<close>

definition AttLSTMCond_get_constants ::
  "(nat \<Rightarrow> mat \<Rightarrow> real \<Rightarrow> mat) \<Rightarrow> (nat \<Rightarrow> tensor3 \<Rightarrow> real \<Rightarrow> tensor3) \<Rightarrow> bool \<Rightarrow> AttLSTMCond \<Rightarrow> tensor3
   \<Rightarrow> tensor option \<Rightarrow> bool option \<Rightarrow> nat \<Rightarrow> slot list \<times> nat" where
  "AttLSTMCond_get_constants sampler sampler3 learning_phase self inputs mask_context training n =
     (let (dp_mask, n1) =
            (if 0 < AttLSTMCond.dropout self \<and> AttLSTMCond.dropout self < 1
             then dropped_masks sampler learning_phase (ones_like_first_step (AttLSTMCond.side_context self))
                    (AttLSTMCond.dropout self) training 4 n
             else (unit_masks 4, n));
          constants = [Masks dp_mask];
          (rec_dp_mask, n2) =
            (if 0 < AttLSTMCond.recurrent_dropout self \<and> AttLSTMCond.recurrent_dropout self < 1
             then dropped_masks sampler learning_phase (K_ones (length inputs) (AttLSTMCond.units self))
                    (AttLSTMCond.recurrent_dropout self) training 4 n1
             else (unit_masks 4, n1));
          constants = constants @ [Masks rec_dp_mask];
          (att_dp_mask, n3) =
            (if 0 < attention_dropout self \<and> attention_dropout self < 1
             then dropped_masks sampler learning_phase (K_ones (length inputs) (AttLSTMCond.units self))
                    (AttLSTMCond.recurrent_dropout self) training 1 n2
             else (unit_masks 1, n2));
          constants = constants @ [Masks att_dp_mask];
          (pctx, n4) =
            (if 0 < attention_dropout self \<and> attention_dropout self < 1
             then (let ones = map (map (map (\<lambda>_. 1))) (AttLSTMCond.side_context self);
                       B_Ua = (if learning_phase then sampler3 n3 ones (attention_dropout self) else ones)
                   in (K_dot3 (t_mul3 (AttLSTMCond.side_context self) B_Ua) (attention_context_kernel self),
                       Suc n3))
             else (K_dot3 (AttLSTMCond.side_context self) (attention_context_kernel self), n3));
          pctx = (if AttLSTMCond.use_bias self then K_bias_add3 pctx (bias_ba self) else pctx);
          constants = constants @ [Ten (T3 pctx)];
          constants = constants @ [Ten (T3 (AttLSTMCond.side_context self))];
          mask_context' =
            (case mask_context of
               None \<Rightarrow> T2 (derived_mask (AttLSTMCond.side_context self) (AttLSTMCond.mask_value self))
             | Some m \<Rightarrow> m);
          constants = constants @ [Ten mask_context']
      in (constants, n4))"

section \<open>\<^verbatim>\<open>AttLSTMCond2Inputs.step\<close>\<close>

text \<open>Reading an entry of \<^verbatim>\<open>states\<close> as what the step function uses it for.\<close>

definition slot_tensor :: "slot list \<Rightarrow> nat \<Rightarrow> error + tensor" where
  "slot_tensor states i =
     bindE (item states i) (\<lambda>s. case s of Ten t \<Rightarrow> Inr t | Masks _ \<Rightarrow> Inl TypeError)"

definition slot_t2 :: "slot list \<Rightarrow> nat \<Rightarrow> error + mat" where
  "slot_t2 states i =
     bindE (slot_tensor states i) (\<lambda>t. case t of T2 m \<Rightarrow> Inr m | _ \<Rightarrow> Inl TypeError)"

definition slot_t3 :: "slot list \<Rightarrow> nat \<Rightarrow> error + tensor3" where
  "slot_t3 states i =
     bindE (slot_tensor states i) (\<lambda>t. case t of T3 m \<Rightarrow> Inr m | _ \<Rightarrow> Inl TypeError)"

definition slot_masks :: "slot list \<Rightarrow> nat \<Rightarrow> error + tensor list" where
  "slot_masks states i =
     bindE (item states i) (\<lambda>s. case s of Masks ms \<Rightarrow> Inr ms | Ten _ \<Rightarrow> Inl TypeError)"

text \<open>\<^verbatim>\<open>mask[:, :, None] * t\<close> for a \<open>(batch, time)\<close> mask and a \<open>(batch, time, dim)\<close>
  tensor, done when \<^verbatim>\<open>K.ndim(mask) > 1\<close>.\<close>

definition mask_time :: "tensor \<Rightarrow> tensor3 \<Rightarrow> error + tensor3" where
  "mask_time mask_context t =
     (if K_ndim mask_context > 1
      then (case mask_context of
              T2 m \<Rightarrow> Inr (map (\<lambda>(mrow, sample). map (\<lambda>(mv, step). map (\<lambda>v. mv * v) step) (zip mrow sample))
                            (zip m t))
            | _ \<Rightarrow> Inl ValueError)
      else Inr t)"

text \<open>A name that is not assigned in the function is looked up in the enclosing
  namespaces (the module's globals, then the builtins) and raises \<^verbatim>\<open>NameError\<close> when
  none binds it. \<open>ns\<close> gives the tensors those namespaces bind. The module
  \<^verbatim>\<open>recurrent.py\<close> binds at top level its imports, \<^verbatim>\<open>compute_attention\<close>, the layer
  classes and the two \<^verbatim>\<open>_generate_dropout\<close> helpers: no tensor at all.\<close>

definition lookup_name :: "(string \<Rightarrow> tensor option) \<Rightarrow> string \<Rightarrow> error + tensor" where
  "lookup_name ns name = (case ns name of None \<Rightarrow> Inl NameError | Some t \<Rightarrow> Inr t)"

definition module_namespace :: "string \<Rightarrow> tensor option" where
  "module_namespace name = None"

record AttLSTMCond2Inputs =
  units :: nat
  use_bias :: bool
  attend_on_both :: bool
  attention_mode :: att_mode
  activation :: "mat \<Rightarrow> mat"
  recurrent_activation :: "mat \<Rightarrow> mat"
  kernel :: kernel
  kernel2 :: kernel
  recurrent_kernel :: kernel
  bias :: vec
  bias2 :: vec
  attention_recurrent_kernel :: kernel
  attention_context_wa :: vec
  bias_ca :: vec
  attention_recurrent_kernel2 :: kernel
  attention_context_wa2 :: vec
  bias_ca2 :: vec

text \<open>The positional unpacking of \<^verbatim>\<open>states\<close> (lines 7442-7476).\<close>

definition unpack_contexts ::
  "AttLSTMCond2Inputs \<Rightarrow> slot list
   \<Rightarrow> error + (tensor list \<times> tensor3 \<times> tensor \<times> tensor3 \<times> tensor \<times> tensor \<times> tensor3 option)" where
  "unpack_contexts self states =
     (let pos_states = 10 in
      if attend_on_both self
      then bindE (slot_masks states pos_states) (\<lambda>att_dp_mask2.
           bindE (slot_t3 states (pos_states + 1)) (\<lambda>context1.
           bindE (slot_tensor states (pos_states + 2)) (\<lambda>mask_context1.
           bindE (slot_t3 states (pos_states + 3)) (\<lambda>pctx_1.
           bindE (slot_tensor states (pos_states + 4)) (\<lambda>context2.
           bindE (slot_tensor states (pos_states + 5)) (\<lambda>mask_context2.
           bindE (slot_t3 states (pos_states + 6)) (\<lambda>pctx_2.
             Inr (att_dp_mask2, context1, mask_context1, pctx_1, context2, mask_context2,
                  Some pctx_2))))))))
      else bindE (slot_t3 states pos_states) (\<lambda>context1.
           bindE (slot_tensor states (pos_states + 1)) (\<lambda>mask_context1.
           bindE (slot_t3 states (pos_states + 2)) (\<lambda>pctx_1.
           bindE (slot_tensor states (pos_states + 3)) (\<lambda>context2.
           bindE (slot_tensor states (pos_states + 4)) (\<lambda>mask_context2.
             Inr ([], context1, mask_context1, pctx_1, context2, mask_context2, None)))))))"

text \<open>\<^verbatim>\<open>AttLSTMCond2Inputs.step\<close> (lines 7441-7517), statement by statement. Line 7482
  passes the name \<^verbatim>\<open>context\<close>, which the function never assigns (it assigns
  \<^verbatim>\<open>context1\<close> and \<^verbatim>\<open>context2\<close>); line 7492 passes \<^verbatim>\<open>pctx_1\<close> and \<^verbatim>\<open>context\<close> again for
  the second head, after lines 7487-7489 have masked \<^verbatim>\<open>pctx_2\<close> and \<^verbatim>\<open>context2\<close>; line
  7506 reads the unassigned name \<^verbatim>\<open>z_\<close>.\<close>

definition AttLSTMCond2Inputs_step ::
  "(string \<Rightarrow> tensor option) \<Rightarrow> AttLSTMCond2Inputs \<Rightarrow> mat \<Rightarrow> slot list \<Rightarrow> error + (mat \<times> slot list)" where
  "AttLSTMCond2Inputs_step ns self x states =
     bindE (slot_t2 states 0) (\<lambda>h_tm1.
     bindE (slot_t2 states 1) (\<lambda>c_tm1.
     bindE (item states 2) (\<lambda>non_used_x_att.
     bindE (item states 3) (\<lambda>non_used_alphas_att.
     bindE (item states 4) (\<lambda>non_used_x_att2.
     bindE (item states 5) (\<lambda>non_used_alphas_att2.
     bindE (slot_masks states 6) (\<lambda>rec_dp_mask.
     bindE (slot_masks states 7) (\<lambda>dp_mask2.
     bindE (slot_masks states 8) (\<lambda>dp_mask.
     bindE (slot_masks states 9) (\<lambda>att_dp_mask.
     bindE (unpack_contexts self states)
       (\<lambda>(att_dp_mask2, context1_0, mask_context1, pctx_1_0, context2_0, mask_context2, pctx_2_0).
     bindE (mask_time mask_context1 pctx_1_0) (\<lambda>pctx_1.
     bindE (mask_time mask_context1 context1_0) (\<lambda>context1.
     bindE (lookup_name ns ''context'') (\<lambda>context_obj.
     bindE (case context_obj of T3 t \<Rightarrow> Inr t | _ \<Rightarrow> Inl TypeError) (\<lambda>context.
     bindE (compute_attention h_tm1 pctx_1 context att_dp_mask (attention_recurrent_kernel self)
              (attention_context_wa self) (bias_ca self) mask_context1 (attention_mode self))
       (\<lambda>(ctx_1, alphas1).
     bindE (if attend_on_both self
            then bindE (case pctx_2_0 of None \<Rightarrow> Inl NameError | Some p \<Rightarrow> mask_time mask_context2 p)
                   (\<lambda>pctx_2.
                 bindE (case context2_0 of T3 t \<Rightarrow> mask_time mask_context2 t | _ \<Rightarrow> Inl ValueError)
                   (\<lambda>context2.
                 bindE (compute_attention h_tm1 pctx_1 context att_dp_mask2
                          (attention_recurrent_kernel2 self) (attention_context_wa2 self)
                          (bias_ca2 self) mask_context2 (attention_mode self))
                   (\<lambda>(ctx_2, alphas2). Inr (T2 ctx_2, T2 alphas2))))
            else Inr (context2_0, mask_context2)) (\<lambda>(ctx_2, alphas2).
     bindE (bindE (item rec_dp_mask 0) (mul_mask h_tm1)) (\<lambda>h_masked.
     bindE (case ctx_2 of T2 m \<Rightarrow> bindE (item dp_mask2 0) (mul_mask m) | _ \<Rightarrow> Inl ValueError)
       (\<lambda>ctx_2_masked.
     bindE (bindE (item dp_mask 0) (mul_mask ctx_1)) (\<lambda>ctx_1_masked.
     let z = t_add (t_add (t_add x (K_dot h_masked (AttLSTMCond2Inputs.recurrent_kernel self)))
                      (K_dot ctx_2_masked (kernel2 self)))
               (K_dot ctx_1_masked (AttLSTMCond2Inputs.kernel self))
     in
     bindE (if AttLSTMCond2Inputs.use_bias self
            then (let z = K_bias_add z (AttLSTMCond2Inputs.bias self) in
                  if attend_on_both self
                  then bindE (lookup_name ns ''z_'')
                         (\<lambda>z_obj. case z_obj of
                                     T2 z_ \<Rightarrow> Inr (K_bias_add z_ (bias2 self))
                                   | _ \<Rightarrow> Inl TypeError)
                  else Inr z)
            else Inr z) (\<lambda>z.
     let z0 = cols_to (AttLSTMCond2Inputs.units self) z;
         z1 = cols (AttLSTMCond2Inputs.units self) (2 * AttLSTMCond2Inputs.units self) z;
         z2 = cols (2 * AttLSTMCond2Inputs.units self) (3 * AttLSTMCond2Inputs.units self) z;
         z3 = cols_from (3 * AttLSTMCond2Inputs.units self) z;
         i = AttLSTMCond2Inputs.recurrent_activation self z0;
         f = AttLSTMCond2Inputs.recurrent_activation self z1;
         c = t_add (t_mul f c_tm1) (t_mul i (AttLSTMCond2Inputs.activation self z2));
         o_gate = AttLSTMCond2Inputs.recurrent_activation self z3;
         h = t_mul o_gate (AttLSTMCond2Inputs.activation self c)
     in Inr (h, [Ten (T2 h), Ten (T2 c), Ten (T2 ctx_1), Ten (T2 alphas1), Ten ctx_2, Ten alphas2])
     )))))))))))))))))))))"

section \<open>Predicates for the life cycle of the dropout masks\<close>



section \<open>Concrete instances for the examples\<close>

text \<open>The default activations of the cells, from the activations module:
  \<^verbatim>\<open>hard_sigmoid(x) = clip(0.2 * x + 0.5, 0, 1)\<close> and \<^verbatim>\<open>tanh\<close>, elementwise; \<^verbatim>\<open>linear\<close> is
  the identity.\<close>

definition hard_sigmoid :: "mat \<Rightarrow> mat" where
  "hard_sigmoid x = map (map (\<lambda>v. max 0 (min 1 (v / 5 + 1 / 2)))) x"

definition tanh_act :: "mat \<Rightarrow> mat" where
  "tanh_act x = map (map tanh) x"

text \<open>A possible outcome of \<^verbatim>\<open>K.dropout(ones, rate)\<close>: every unit is kept, and scaled by
  \<open>1 / (1 - rate)\<close> as dropout does.\<close>

definition keep_all :: "nat \<Rightarrow> mat \<Rightarrow> real \<Rightarrow> mat" where
  "keep_all n ones rate = map (map (\<lambda>v. v / (1 - rate))) ones"


definition ex_SimpleRNN :: "bool \<Rightarrow> SimpleRNNCell world RNN" where
  "ex_SimpleRNN unroll_flag =
     \<lparr>cell = SimpleRNNCell_obj keep_all False 1, return_sequences = False, return_state = False,
      go_backwards = False, stateful = False, unroll = unroll_flag, states_var = None,
      batch_size_spec = None, num_constants = None\<rparr>"

definition ex_world :: "'c \<Rightarrow> 'c world" where
  "ex_world c = \<lparr>the_cell = c, draws = 0, used = []\<rparr>"


text \<open>A cell with one state of size \<open>n\<close>, on integers: the output is the input plus \<open>d\<close>
  plus the state, the new state is the old one plus the input.\<close>

definition ex_cell :: "nat \<Rightarrow> int \<Rightarrow> (int, int, unit, unit) Cell" where
  "ex_cell n d =
     \<lparr>state_size = SizeList [n], takes_constants = False, takes_training = False,
      call = (\<lambda>x states constants training w.
                Inr ((x + d + sum_list states, map (\<lambda>s. s + x) states), w))\<rparr>"

text \<open>An \<^verbatim>\<open>LSTMCell\<close> with two units, the \<^verbatim>\<open>zeros\<close> initializers and
  \<^verbatim>\<open>unit_forget_bias=True\<close>, before \<^verbatim>\<open>build\<close>.\<close>

definition ex_LSTMCell :: LSTMCell where
  "ex_LSTMCell =
     \<lparr>LSTMCell.units = 2, activation = tanh_act, recurrent_activation = hard_sigmoid,
      use_bias = True,
      kernel_initializer = (\<lambda>rows columns. replicate columns (replicate rows 0)),
      recurrent_initializer = (\<lambda>rows columns. replicate columns (replicate rows 0)),
      bias_initializer = (\<lambda>i n. replicate n 0),
      unit_forget_bias = True, dropout = 0, recurrent_dropout = 0, implementation = 2,
      kernel = [], recurrent_kernel = [], bias = None,
      dropout_mask = None, recurrent_dropout_mask = None\<rparr>"

text \<open>A \<^verbatim>\<open>GRUCond\<close> whose side context has one sample with one time step, the feature
  vector \<open>[1, -1]\<close>; and one with two time steps, \<open>[1, 2]\<close> and \<open>[0, 0]\<close>.\<close>

definition ex_GRUCond :: "tensor3 \<Rightarrow> GRUCond" where
  "ex_GRUCond ctx =
     \<lparr>GRUCond.units = 1, static_ctx = True, dropout = 0, recurrent_dropout = 0, mask_value = 0,
      side_context = ctx\<rparr>"

definition ex_AttLSTMCond :: "tensor3 \<Rightarrow> AttLSTMCond" where
  "ex_AttLSTMCond ctx =
     \<lparr>AttLSTMCond.units = 1, use_bias = False, dropout = 0, recurrent_dropout = 0,
      attention_dropout = 0, mask_value = 0, side_context = ctx,
      attention_context_kernel = [[0, 0]], bias_ba = [0]\<rparr>"

text \<open>An \<^verbatim>\<open>AttLSTMCond2Inputs\<close> layer with \<^verbatim>\<open>attend_on_both=True\<close>, one unit and additive
  attention, and the \<^verbatim>\<open>states\<close> its step function is handed for one sample: the two
  recurrent states, the four placeholders, the dropout masks (all 1), then the first
  context with its mask and projection and the second context with its mask and
  projection.\<close>

definition ex_AttLSTMCond2Inputs :: AttLSTMCond2Inputs where
  "ex_AttLSTMCond2Inputs =
     \<lparr>AttLSTMCond2Inputs.units = 1, use_bias = False, attend_on_both = True,
      attention_mode = ModeStr ''add'', activation = tanh_act, recurrent_activation = hard_sigmoid,
      kernel = [[0], [0], [0], [0]], kernel2 = [[0], [0], [0], [0]],
      recurrent_kernel = [[0], [0], [0], [0]], bias = [], bias2 = [],
      attention_recurrent_kernel = [[0]], attention_context_wa = [0], bias_ca = [0],
      attention_recurrent_kernel2 = [[0]], attention_context_wa2 = [0], bias_ca2 = [0]\<rparr>"

definition ex_states :: "tensor3 \<Rightarrow> tensor3 \<Rightarrow> slot list" where
  "ex_states context2 pctx_2 =
     [Ten (T2 [[0]]), Ten (T2 [[0]]),
      Ten (T2 [[0]]), Ten (T2 [[0]]), Ten (T2 [[0]]), Ten (T2 [[0]]),
      Masks (unit_masks 4), Masks (unit_masks 4), Masks (unit_masks 4),
      Masks (unit_masks 1), Masks (unit_masks 1),
      Ten (T3 [[[1]]]), Ten (T2 [[1]]), Ten (T3 [[[0]]]),
      Ten (T3 context2), Ten (T2 [[1]]), Ten (T3 pctx_2)]"


section \<open>Properties of the attention scorer\<close>

lemma softmax_row_sum: "e \<noteq> [] \<Longrightarrow> sum_list (softmax_row e) = 1"
proof -
  assume ne: "e \<noteq> []"
  have nn: "0 \<le> sum_list (map exp xs)" for xs :: "real list"
    by (rule sum_list_nonneg) auto
  have pos: "0 < sum_list (map exp e)"
    using ne nn[of "tl e"] by (cases e) (auto intro: add_pos_nonneg)
  have "sum_list (map (\<lambda>x. exp x / c) e) = sum_list (map exp e) / c" for c :: real
    by (induction e) (auto simp: add_divide_distrib)
  then show ?thesis using pos by (simp add: softmax_row_def)
qed

lemma softmax_row_Nil_iff: "softmax_row e = [] \<longleftrightarrow> e = []"
  by (simp add: softmax_row_def)

lemma compute_attention_alphas:
  assumes "compute_attention h pctx context dp W wa b mk mode = Inr (ctx, alphas)"
  shows "\<exists>e. alphas = K_softmax e"
  using assms
  by (auto simp: compute_attention_def bindE_def Let_def split: sum.splits)

lemma sum_valid_all:
  "length mrow = length a \<Longrightarrow> list_all (\<lambda>x. x \<noteq> 0) mrow \<Longrightarrow> sum_valid mrow a = sum_list a"
proof -
  assume len: "length mrow = length a" and nz: "list_all (\<lambda>x. x \<noteq> 0) mrow"
  have "filter (\<lambda>(m, a). m \<noteq> 0) (zip mrow a) = zip mrow a"
    using nz by (auto simp: filter_id_conv list_all_iff dest: set_zip_leftD)
  then show ?thesis using len by (simp add: sum_valid_def)
qed

text \<open>
  Claim C4, as the code has it. Whenever \<^verbatim>\<open>compute_attention\<close> returns, every row of
  \<open>alphas\<close> with at least one time step sums to 1 over the whole time axis, the masked
  positions included; over the valid positions alone it sums to 1 when the mask row
  masks nothing. (The mask multiplies the scores before the softmax, so a masked position
  has score 0 and keeps the weight \<open>exp 0 / Z\<close>.)
\<close>

theorem compute_attention_alphas_sum:
  assumes "compute_attention h pctx context dp W wa b mk mode = Inr (ctx, alphas)"
    and "a \<in> set alphas" and "a \<noteq> []"
  shows "sum_list a = 1 \<and>
         (\<forall>mrow. length mrow = length a \<and> list_all (\<lambda>x. x \<noteq> 0) mrow \<longrightarrow> sum_valid mrow a = 1)"
proof -
  obtain e where "alphas = K_softmax e" using compute_attention_alphas[OF assms(1)] ..
  then obtain r where "a = softmax_row r" using assms(2) by (auto simp: K_softmax_def)
  then have "sum_list a = 1" using assms(3) softmax_row_sum[of r] by (simp add: softmax_row_Nil_iff)
  then show ?thesis by (simp add: sum_valid_all)
qed

text \<open>Witness for C4: one sample with two unmasked time steps and additive scores 0.\<close>

theorem compute_attention_alphas_sum_witness:
  "compute_attention [[0]] [[[0], [0]]] [[[1], [3]]] [T0 1] [[0]] [0] [0, 0] (T0 1) (ModeStr ''add'')
     = Inr ([[2]], [[1 / 2, 1 / 2]]) \<and>
   sum_list [1 / 2, 1 / 2 :: real] = 1 \<and> sum_valid [1, 1] [1 / 2, 1 / 2] = 1"
proof -
  have run: "compute_attention [[0]] [[[0], [0]]] [[[1], [3]]] [T0 1] [[0]] [0] [0, 0] (T0 1)
               (ModeStr ''add'') = Inr ([[2]], [[1 / 2, 1 / 2]])"
    by (simp add: compute_attention_def bindE_def item_def K_dot_def inner_def scores_add_def
          mask_scores_def K_softmax_def softmax_row_def weighted_context_def K_sum_axis1_def
          sum_rows_def)
  from compute_attention_alphas_sum[OF run, of "[1 / 2, 1 / 2]"]
  have "sum_list [1 / 2, 1 / 2 :: real] = 1 \<and> sum_valid [1, 1] [1 / 2, 1 / 2] = 1"
    by simp
  with run show ?thesis by simp
qed

text \<open>Counterexample to C4 as stated: with the second of two positions masked, the weights
  are \<open>[1/2, 1/2]\<close>, and the valid position carries \<open>1/2\<close>, not 1.\<close>

theorem compute_attention_masked_counterexample:
  "compute_attention [[0]] [[[0], [0]]] [[[1], [1]]] [T0 1] [[0]] [0] [0, 0] (T2 [[1, 0]])
     (ModeStr ''add'') = Inr ([[1]], [[1 / 2, 1 / 2]]) \<and>
   sum_valid [1, 0] [1 / 2, 1 / 2] = 1 / 2"
  by (simp add: compute_attention_def bindE_def item_def K_dot_def inner_def scores_add_def
        mask_scores_def t_mul_def K_softmax_def softmax_row_def weighted_context_def
        K_sum_axis1_def sum_rows_def sum_valid_def)




text \<open>An \<^verbatim>\<open>attention_mode\<close> that is neither a string nor callable does not reach the
  \<^verbatim>\<open>raise\<close>: concatenating it into the message raises \<^verbatim>\<open>TypeError\<close>.\<close>

lemma compute_attention_mode_None:
  "compute_attention [[0]] [[[0]]] [[[1]]] [T0 1] [[0]] [0] [0] (T2 [[1]]) ModeNone = Inl TypeError"
  by (simp add: compute_attention_def bindE_def item_def)

section \<open>Properties of \<^verbatim>\<open>StackedRNNCells\<close>\<close>

lemma state_size_loop_eq:
  "state_size_loop cs acc = acc @ concat (map (\<lambda>c. sizes_of (state_size c)) cs)"
  by (induction cs arbitrary: acc) (auto simp: sizes_of_def split: state_size.splits)

lemma recover_states_chunks:
  "list_all2 (\<lambda>c ch. length ch = length (sizes_of (state_size c))) cs chunks \<Longrightarrow>
   recover_states cs (concat chunks) acc = Inr (acc @ chunks)"
proof (induction cs chunks arbitrary: acc rule: list_all2_induct)
  case Nil
  then show ?case by simp
next
  case (Cons c cs ch chunks)
  show ?case
  proof (cases "state_size c")
    case (SizeInt n)
    with Cons.hyps(1) obtain s where "ch = [s]"
      by (cases ch) (auto simp: sizes_of_def)
    with SizeInt Cons.IH show ?thesis by simp
  next
    case (SizeList l)
    with Cons.hyps(1) have "length ch = length l" by (simp add: sizes_of_def)
    with SizeList Cons.IH show ?thesis by simp
  qed
qed

lemma call_cells_forward:
  "length cs = length chunks \<Longrightarrow>
   call_cells (zip cs chunks) k tr x acc w =
     (case stack_forward cs chunks k tr x w of
        Inl e \<Rightarrow> Inl e
      | Inr ((z, news), w') \<Rightarrow> Inr ((z, acc @ news), w'))"
proof (induction cs chunks arbitrary: x acc w rule: list_induct2)
  case Nil
  then show ?case by simp
next
  case (Cons c cs ch chunks)
  then show ?case
    by (auto split: sum.splits prod.splits)
qed

lemma flatten_states_eq: "flatten_states xs acc = acc @ concat xs"
  by (induction xs arbitrary: acc) auto

text \<open>
  Claim C2. For a stack built from \<open>cells\<close>, \<^verbatim>\<open>state_size\<close> is the concatenation of the
  cells' state sizes enumerated last-to-first. When the incoming flat state list is laid
  out the same way (the chunk of the last cell first, \<open>chunks\<close> holding as many states per
  cell as the cell declares), \<^verbatim>\<open>call\<close> gives cell \<open>i\<close> its chunk \<open>i\<close>, runs the cells in
  forward order, cell 0 first and each later cell on the output of the one before, and
  returns the last output with the new chunks flattened in reversed cell order. An
  exception of a cell is the exception of the stack.
\<close>

theorem stacked_cells_reversed_layout:
  assumes "list_all2 (\<lambda>c ch. length ch = length (sizes_of (state_size c))) cells chunks"
  shows "StackedRNNCells_state_size cells = concat (map (\<lambda>c. sizes_of (state_size c)) (rev cells)) \<and>
         StackedRNNCells_call cells x (concat (rev chunks)) k tr w =
           (case stack_forward cells chunks k tr x w of
              Inl e \<Rightarrow> Inl e
            | Inr ((z, news), w') \<Rightarrow> Inr ((z, concat (rev news)), w'))"
proof -
  have len: "length cells = length chunks" using assms by (rule list_all2_lengthD)
  have "list_all2 (\<lambda>c ch. length ch = length (sizes_of (state_size c))) (rev cells) (rev chunks)"
    using assms by simp
  then have rec: "recover_states (rev cells) (concat (rev chunks)) [] = Inr (rev chunks)"
    using recover_states_chunks[of "rev cells" "rev chunks" "[]"] by simp
  show ?thesis
    by (simp add: StackedRNNCells_state_size_def state_size_loop_eq StackedRNNCells_call_def
          rec bindE_def call_cells_forward[OF len] flatten_states_eq split: sum.splits prod.splits)
qed

text \<open>Witness for C2: two cells with state sizes \<open>[2]\<close> and \<open>[3]\<close>. The state size of the
  stack is \<open>(3, 2)\<close>; on the flat states \<open>[7, 5]\<close> and the input 1, cell 0 (which adds 10)
  runs first on its state 5, cell 1 (which adds 100) runs on the output 16 and its state
  7, and the new states come back as \<open>[23, 6]\<close>, the state of cell 1 first.\<close>

theorem stacked_cells_reversed_layout_witness:
  "StackedRNNCells_state_size [ex_cell 2 10, ex_cell 3 100] = [3, 2] \<and>
   StackedRNNCells_call [ex_cell 2 10, ex_cell 3 100] 1 [7, 5] None None () = Inr ((123, [23, 6]), ())"
  using stacked_cells_reversed_layout[of "[ex_cell 2 10, ex_cell 3 100]" "[[5], [7]]" 1 None None "()"]
  by (simp add: ex_cell_def sizes_of_def)

section \<open>Properties of the base layer \<^verbatim>\<open>RNN\<close>\<close>




text \<open>
  Claim C10. For a layer whose \<^verbatim>\<open>stateful\<close> flag is false, \<^verbatim>\<open>reset_states\<close>, with or
  without state values, raises \<^verbatim>\<open>AttributeError\<close> and leaves the layer, its states
  included, as it was.
\<close>

theorem reset_states_not_stateful:
  assumes "\<not> stateful layer"
  shows "reset_states layer states = (Some AttributeError, layer)"
  using assms by (simp add: reset_states_def)

text \<open>Witness for C10: a \<^verbatim>\<open>SimpleRNN\<close> that is not stateful, reset without and with state
  values.\<close>

theorem reset_states_not_stateful_witness:
  "\<not> stateful (ex_SimpleRNN False) \<and>
   reset_states (ex_SimpleRNN False) NoStates = (Some AttributeError, ex_SimpleRNN False) \<and>
   reset_states (ex_SimpleRNN False) (StateList [T2 [[0]]]) = (Some AttributeError, ex_SimpleRNN False)"
  using reset_states_not_stateful[of "ex_SimpleRNN False" NoStates]
        reset_states_not_stateful[of "ex_SimpleRNN False" "StateList [T2 [[0]]]"]
  by (simp add: ex_SimpleRNN_def)

text \<open>The other side of the guard: a stateful layer with a known batch size creates its
  zero state.\<close>

lemma reset_states_stateful_example:
  "reset_states ((ex_SimpleRNN False)\<lparr>stateful := True, batch_size_spec := Some 2\<rparr>) NoStates
     = (None, (ex_SimpleRNN False)\<lparr>stateful := True, batch_size_spec := Some 2,
                states_var := Some [Some (T2 [[0], [0]])]\<rparr>)"
  by (simp add: reset_states_def ex_SimpleRNN_def RNN_states_def SimpleRNNCell_obj_def sizes_of_def
        K_zeros_def numeral_2_eq_2)

section \<open>The life cycle of the dropout masks\<close>




















section \<open>Properties of \<^verbatim>\<open>LSTMCell\<close>\<close>

lemma map_sum_bindE: "map_sum id g (bindE m f) = bindE m (\<lambda>x. map_sum id g (f x))"
  by (cases m) (simp_all add: bindE_def)

lemma LSTMCell_impl1_flag:
  "LSTMCell_impl1 (c\<lparr>unit_forget_bias := b\<rparr>) = LSTMCell_impl1 c"
  by (intro ext)
     (simp add: LSTMCell_impl1_def kernel_i_def kernel_f_def kernel_c_def kernel_o_def
        recurrent_kernel_i_def recurrent_kernel_f_def recurrent_kernel_c_def recurrent_kernel_o_def
        bias_i_def bias_f_def bias_c_def bias_o_def cong: if_cong)

lemma LSTMCell_impl2_flag:
  "LSTMCell_impl2 (c\<lparr>unit_forget_bias := b\<rparr>) = LSTMCell_impl2 c"
  by (intro ext) (simp add: LSTMCell_impl2_def cong: if_cong)

lemma LSTMCell_call_flag:
  "map_sum id fst (LSTMCell_call sampler lp x st tr (w\<lparr>the_cell := (the_cell w)\<lparr>unit_forget_bias := b\<rparr>\<rparr>))
   = map_sum id fst (LSTMCell_call sampler lp x st tr w)"
  by (simp add: LSTMCell_call_def Let_def map_sum_bindE split_beta LSTMCell_impl1_flag
        LSTMCell_impl2_flag cong: if_cong)

text \<open>
  Claim C7. For an \<^verbatim>\<open>LSTMCell\<close> built with \<^verbatim>\<open>use_bias=True\<close> and
  \<^verbatim>\<open>unit_forget_bias=True\<close>, whose bias initializer returns vectors of the length asked
  for, the bias has four quarter-blocks of \<open>units\<close> entries: the second (the forget-gate
  slice \<open>bias_f\<close>) is all ones; the first is the initializer's output for \<open>units\<close>
  entries, and the third and fourth are the two halves of the initializer's output for
  \<open>2 * units\<close> entries. The flag is read by \<^verbatim>\<open>build\<close> only: the output and states of
  \<^verbatim>\<open>call\<close> are the same whatever the flag is set to afterwards.
\<close>

theorem LSTMCell_unit_forget_bias:
  assumes "LSTMCell.use_bias c" and "unit_forget_bias c"
    and "\<forall>i n. length (bias_initializer c i n) = n"
  shows "LSTMCell.bias (LSTMCell_build c input_dim) =
           Some (bias_initializer c 0 (LSTMCell.units c) @ replicate (LSTMCell.units c) 1
                 @ bias_initializer c 1 (LSTMCell.units c * 2)) \<and>
         bias_i (LSTMCell_build c input_dim) = Some (bias_initializer c 0 (LSTMCell.units c)) \<and>
         bias_f (LSTMCell_build c input_dim) = Some (replicate (LSTMCell.units c) 1) \<and>
         bias_c (LSTMCell_build c input_dim) =
           Some (take (LSTMCell.units c) (bias_initializer c 1 (LSTMCell.units c * 2))) \<and>
         bias_o (LSTMCell_build c input_dim) =
           Some (drop (LSTMCell.units c) (bias_initializer c 1 (LSTMCell.units c * 2))) \<and>
         map_sum id fst (LSTMCell_call sampler lp x st tr
                           (w\<lparr>the_cell := (the_cell w)\<lparr>unit_forget_bias := flag\<rparr>\<rparr>))
           = map_sum id fst (LSTMCell_call sampler lp x st tr w)"
  using assms
  by (simp add: LSTMCell_build_def bias_i_def bias_f_def bias_c_def bias_o_def py_slice_def
        LSTMCell_call_flag)
text \<open>Witness for C7: two units and the \<^verbatim>\<open>zeros\<close> initializer give the bias
  \<open>[0, 0, 1, 1, 0, 0, 0, 0]\<close>.\<close>

theorem LSTMCell_unit_forget_bias_witness:
  "LSTMCell.bias (LSTMCell_build ex_LSTMCell 1) = Some [0, 0, 1, 1, 0, 0, 0, 0] \<and>
   bias_i (LSTMCell_build ex_LSTMCell 1) = Some [0, 0] \<and>
   bias_f (LSTMCell_build ex_LSTMCell 1) = Some [1, 1] \<and>
   bias_c (LSTMCell_build ex_LSTMCell 1) = Some [0, 0] \<and>
   bias_o (LSTMCell_build ex_LSTMCell 1) = Some [0, 0] \<and>
   map_sum id fst (LSTMCell_call keep_all False [[1]] [T2 [[0, 0]], T2 [[0, 0]]] None
       ((ex_world (LSTMCell_build ex_LSTMCell 1))
          \<lparr>the_cell := (the_cell (ex_world (LSTMCell_build ex_LSTMCell 1)))\<lparr>unit_forget_bias := False\<rparr>\<rparr>))
     = map_sum id fst (LSTMCell_call keep_all False [[1]] [T2 [[0, 0]], T2 [[0, 0]]] None
         (ex_world (LSTMCell_build ex_LSTMCell 1)))"
proof -
  have h1: "LSTMCell.use_bias ex_LSTMCell" and h2: "unit_forget_bias ex_LSTMCell"
    and h3: "\<forall>i n. length (bias_initializer ex_LSTMCell i n) = n"
    by (simp_all add: ex_LSTMCell_def)
  have u: "LSTMCell.units ex_LSTMCell = 2"
    and b: "bias_initializer ex_LSTMCell = (\<lambda>i n. replicate n 0)"
    by (simp_all add: ex_LSTMCell_def)
  from LSTMCell_unit_forget_bias[OF h1 h2 h3, where input_dim = 1 and sampler = keep_all
         and lp = False and x = "[[1]]" and st = "[T2 [[0, 0]], T2 [[0, 0]]]" and tr = None
         and w = "ex_world (LSTMCell_build ex_LSTMCell 1)" and flag = False]
  show ?thesis
    by (simp add: u b numeral_eq_Suc)
qed

section \<open>The two implementations of \<^verbatim>\<open>GRUCell\<close>\<close>










lemma rows_last_dim: "\<forall>row\<in>set x. length row = d \<Longrightarrow> x \<noteq> [] \<Longrightarrow> last_dim x = d"
  by (cases x) (auto simp: last_dim_def)








section \<open>The derived context mask\<close>

lemma GRUCond_last_constant:
  "last (fst (GRUCond_get_constants sampler lp self inputs None training n)) =
     Ten (T2 (derived_mask (GRUCond.side_context self) (GRUCond.mask_value self)))"
  by (simp add: GRUCond_get_constants_def Let_def split_beta)

lemma AttLSTMCond_last_constant:
  "last (fst (AttLSTMCond_get_constants sampler sampler3 lp self inputs None training n)) =
     Ten (T2 (derived_mask (AttLSTMCond.side_context self) (AttLSTMCond.mask_value self)))"
  by (simp add: AttLSTMCond_get_constants_def Let_def split_beta)

lemma derived_mask_nth:
  "b < length ctx \<Longrightarrow> t < length (ctx ! b) \<Longrightarrow>
   derived_mask ctx mv ! b ! t = (if sum_list (ctx ! b ! t) \<noteq> mv then 1 else 0)"
  by (simp add: derived_mask_def)

text \<open>
  Claim C9, as the code has it. When \<^verbatim>\<open>get_constants\<close> of \<^verbatim>\<open>GRUCond\<close> or \<^verbatim>\<open>AttLSTMCond\<close> is
  called without a mask for the side context, the last constant is the derived mask, and
  it marks position \<open>(b, t)\<close> valid (1) exactly when the sum of the context's feature
  vector at \<open>(b, t)\<close> differs from \<^verbatim>\<open>mask_value\<close>, and invalid (0) otherwise.
\<close>

theorem derived_context_mask_sum:
  assumes "GRUCond.side_context g = ctx" and "AttLSTMCond.side_context a = ctx"
    and "b < length ctx" and "t < length (ctx ! b)"
  shows "last (fst (GRUCond_get_constants sampler lp g inputs None training n))
           = Ten (T2 (derived_mask ctx (GRUCond.mask_value g))) \<and>
         derived_mask ctx (GRUCond.mask_value g) ! b ! t
           = (if sum_list (ctx ! b ! t) \<noteq> GRUCond.mask_value g then 1 else 0) \<and>
         last (fst (AttLSTMCond_get_constants sampler sampler3 lp a inputs None training n))
           = Ten (T2 (derived_mask ctx (AttLSTMCond.mask_value a))) \<and>
         derived_mask ctx (AttLSTMCond.mask_value a) ! b ! t
           = (if sum_list (ctx ! b ! t) \<noteq> AttLSTMCond.mask_value a then 1 else 0)"
  using assms
  by (simp add: GRUCond_last_constant AttLSTMCond_last_constant derived_mask_nth)

text \<open>Witness for C9: one sample with the time steps \<open>[1, 2]\<close> and \<open>[0, 0]\<close> and
  \<^verbatim>\<open>mask_value = 0\<close>; the derived mask is \<open>[[1, 0]]\<close>.\<close>

theorem derived_context_mask_sum_witness:
  "last (fst (GRUCond_get_constants keep_all False (ex_GRUCond [[[1, 2], [0, 0]]]) [[[0]]] None None 0))
     = Ten (T2 [[1, 0]]) \<and>
   last (fst (AttLSTMCond_get_constants keep_all (\<lambda>n ones rate. ones) False
                (ex_AttLSTMCond [[[1, 2], [0, 0]]]) [[[0]]] None None 0))
     = Ten (T2 [[1, 0]]) \<and>
   derived_mask [[[1, 2], [0, 0]]] 0 ! 0 ! 1 = 0"
  using derived_context_mask_sum[of "ex_GRUCond [[[1, 2], [0, 0]]]" "[[[1, 2], [0, 0]]]"
          "ex_AttLSTMCond [[[1, 2], [0, 0]]]" 0 1 keep_all False "[[[0]]]" None 0
          "\<lambda>n ones rate. ones"]
  by (simp add: ex_GRUCond_def ex_AttLSTMCond_def derived_mask_def)

text \<open>Counterexample to C9 as stated: the feature vector \<open>[1, -1]\<close> is not all-zero (and no
  entry of it equals the \<^verbatim>\<open>mask_value\<close> 0), yet its position is marked invalid, its sum
  being 0.\<close>

theorem derived_context_mask_counterexample:
  "last (fst (GRUCond_get_constants keep_all False (ex_GRUCond [[[1, - 1]]]) [[[0]]] None None 0))
     = Ten (T2 [[0]]) \<and>
   GRUCond.side_context (ex_GRUCond [[[1, - 1]]]) ! 0 ! 0 = [1, - 1] \<and>
   \<not> list_all (\<lambda>v. v = 0) [1, - 1 :: real]"
  by (simp add: GRUCond_get_constants_def ex_GRUCond_def derived_mask_def unit_masks_def Let_def)

section \<open>The step function of \<^verbatim>\<open>AttLSTMCond2Inputs\<close>\<close>

text \<open>
  Claim C1 does not hold of the code. With \<^verbatim>\<open>attend_on_both=True\<close>, on well-formed states
  (second context \<open>[[[5]]]\<close>, its projected keys \<open>[[[7]]]\<close>), \<^verbatim>\<open>step\<close> raises \<^verbatim>\<open>NameError\<close>:
  the first attention call already names \<^verbatim>\<open>context\<close>, which nothing binds, so no \<open>ctx_2\<close>
  and no \<open>alphas2\<close> are returned at all.
\<close>

theorem AttLSTMCond2Inputs_step_NameError:
  "AttLSTMCond2Inputs_step module_namespace ex_AttLSTMCond2Inputs [[0, 0, 0, 0]]
     (ex_states [[[5]]] [[[7]]]) = Inl NameError"
  by (simp add: AttLSTMCond2Inputs_step_def ex_states_def ex_AttLSTMCond2Inputs_def bindE_def
        slot_t2_def slot_t3_def slot_tensor_def slot_masks_def item_def unpack_contexts_def
        mask_time_def lookup_name_def module_namespace_def)

text \<open>Were the name \<^verbatim>\<open>context\<close> bound (here to the first context \<open>[[[1]]]\<close>), the second head
  would still not read the second context: whatever \<open>context2\<close> and \<open>pctx_2\<close> are, \<open>ctx_2\<close>
  is the first context attended, \<open>[[1]]\<close>.\<close>

lemma AttLSTMCond2Inputs_second_head_ignores_context2:
  "AttLSTMCond2Inputs_step (\<lambda>name. if name = ''context'' then Some (T3 [[[1]]]) else None)
     ex_AttLSTMCond2Inputs [[0, 0, 0, 0]] (ex_states context2 pctx_2)
   = Inr ([[0]], [Ten (T2 [[0]]), Ten (T2 [[0]]), Ten (T2 [[1]]), Ten (T2 [[1]]), Ten (T2 [[1]]), Ten (T2 [[1]])])"
  by (simp add: AttLSTMCond2Inputs_step_def ex_states_def ex_AttLSTMCond2Inputs_def bindE_def
        slot_t2_def slot_t3_def slot_tensor_def slot_masks_def item_def unpack_contexts_def
        mask_time_def lookup_name_def compute_attention_def unit_masks_def K_dot_def inner_def
        scores_add_def mask_scores_def t_mul_def t_add_def K_softmax_def softmax_row_def
        weighted_context_def K_sum_axis1_def sum_rows_def cols_def cols_to_def cols_from_def
        hard_sigmoid_def tanh_act_def Let_def)

end
